theory Spec2Isabelle
  imports Complex_Main "HOL-Library.Multiset"
begin

section \<open>Data model\<close>

text \<open>
  An ObjectId is represented by its hexadecimal string, so that \<open>toString\<close>,
  \<open>new Types.ObjectId(s)\<close> and \<open>equals\<close> are the identity and equality on strings.
\<close>

type_synonym objectId = string

text \<open>The constants of \<open>product.constants.ts\<close> that the schema and the handlers use.\<close>

definition MAX_IMAGES_PER_PRODUCT :: nat where
  "MAX_IMAGES_PER_PRODUCT = 3"

definition MIN_IMAGES_PER_PRODUCT :: nat where
  "MIN_IMAGES_PER_PRODUCT = 1"

definition MIN_QTY_IN_STOCK :: int where
  "MIN_QTY_IN_STOCK = 0"

definition MIN_PRODUCT_PRICE :: rat where
  "MIN_PRODUCT_PRICE = 1"

datatype Categories =
  ANKLET | BODY_JEWELLERY | BRACELET | EARRING | NECKLACE | OTHERS | PHONE_STRAP

text \<open>
  The fields a request body contributes to a product (the DTO classes implement
  \<open>Partial<ProductInterface>\<close>), and the product document, which adds the ordered
  image references. The identity \<open>_id\<close> of a document is the key under which the
  store holds it.
\<close>

record productData =
  name :: string
  description :: string
  quantityInStock :: int
  category :: Categories
  isPopular :: bool
  price :: rat
  similarProducts :: "objectId list"

record product = productData +
  images :: "objectId list"

record productImage =
  url :: string

text \<open>An uploaded file, identified by the path derived for it.\<close>

type_synonym imageFile = string

subsection \<open>Schema validation\<close>

text \<open>
  The validators of \<open>productSchema\<close>, run by every \<open>save\<close> of a product document.
  The result lists the paths whose validator fails; the category is an enum value by
  its type, and \<open>isPopular\<close> and \<open>similarProducts\<close> carry no validator.
\<close>

datatype path = Name | Description | Price | QuantityInStock | Images

definition validateProduct :: "product \<Rightarrow> path list" where
  "validateProduct p =
     (if 3 \<le> length (name p) \<and> length (name p) \<le> 200 then [] else [Name]) @
     (if length (description p) = 0 \<or>
         (5 \<le> length (description p) \<and> length (description p) \<le> 1000)
      then [] else [Description]) @
     (if MIN_PRODUCT_PRICE \<le> price p then [] else [Price]) @
     (if MIN_QTY_IN_STOCK \<le> quantityInStock p then [] else [QuantityInStock]) @
     (if length (images p) \<le> MAX_IMAGES_PER_PRODUCT \<and>
         MIN_IMAGES_PER_PRODUCT \<le> length (images p)
      then [] else [Images])"

subsection \<open>Errors and responses\<close>

text \<open>
  One constructor per \<open>throw new Error(...)\<close> of the handlers, one for the validation
  error a rejected \<open>save\<close> raises, one for a failure of the file store, one for a
  string that \<open>new Types.ObjectId\<close> refuses, and one for the error with which the
  driver refuses \<open>abortTransaction\<close> on a session that has already committed. A handler
  answers through \<open>next\<close> with a \<open>CustomSuccess\<close> or a \<open>CustomError\<close>, each carrying
  its HTTP status; \<open>NoResponse e\<close> is a run in which \<open>e\<close> is thrown inside the \<open>catch\<close>
  block, so that the handler ends without calling \<open>next\<close>.
\<close>

datatype error =
    ImageFilesNotPresent
  | MaximumImagesPerProduct
  | SimilarProductNotFound objectId
  | ProductNotFound objectId
  | ImageNotUploaded
  | AlreadyMaxImages
  | ImageNotFound objectId
  | ImageDoesNotBelong objectId objectId
  | PayloadNotArrayOfStrings
  | ImagesAreDifferent
  | NewQuantityNotPresent
  | SimilarArrayNotPresent
  | InvalidSimilarArray
  | CannotAddItself
  | ValidationFailed "path list"
  | FileStoreFailed string
  | InvalidObjectId string
  | CannotAbortAfterCommit

datatype response =
    CustomSuccess objectId product nat
  | CustomError error nat
  | NoResponse error

fun isSuccess :: "response \<Rightarrow> bool" where
  "isSuccess (CustomSuccess _ _ _) = True"
| "isSuccess (CustomError _ _) = False"
| "isSuccess (NoResponse _) = False"

section \<open>The document store and its sessions\<close>

text \<open>
  The store holds the two collections. A session collects the writes issued under it;
  \<open>commitTransaction\<close> applies them in the order they were issued, and an aborted
  session leaves the store as it was. Reads (\<open>findById\<close>) are issued without the
  session in every handler, so they see the committed store only.
\<close>

record store =
  products :: "objectId \<rightharpoonup> product"
  productImages :: "objectId \<rightharpoonup> productImage"

datatype storeWrite =
    SaveProduct objectId product
  | SaveImage objectId productImage
  | DeleteImage objectId

type_synonym session = "storeWrite list"

fun applyWrite :: "store \<Rightarrow> storeWrite \<Rightarrow> store" where
  "applyWrite s (SaveProduct k p) = s\<lparr>products := (products s)(k \<mapsto> p)\<rparr>"
| "applyWrite s (SaveImage k i) = s\<lparr>productImages := (productImages s)(k \<mapsto> i)\<rparr>"
| "applyWrite s (DeleteImage k) = s\<lparr>productImages := (productImages s)(k := None)\<rparr>"

definition commitTransaction :: "store \<Rightarrow> session \<Rightarrow> store" where
  "commitTransaction s sess = foldl applyWrite s sess"

text \<open>
  \<open>await doc.save({ session })\<close>: the document is validated, and written under the
  session when it passes; a validation failure is thrown.
\<close>

definition save :: "objectId \<Rightarrow> product \<Rightarrow> session \<Rightarrow> error + session" where
  "save k p sess =
     (if validateProduct p = [] then Inr (sess @ [SaveProduct k p])
      else Inl (ValidationFailed (validateProduct p)))"

text \<open>
  \<open>doc.save({ session })\<close> without \<open>await\<close> (the endpoint documents of the relation):
  the handler does not wait for the outcome, so a rejection by the validators is not
  seen by it. The operations of one request are taken in program order: the write is
  issued under the session at the point of the call, when the document passes
  validation.
\<close>

definition saveUnawaited :: "objectId \<Rightarrow> product \<Rightarrow> session \<Rightarrow> session" where
  "saveUnawaited k p sess =
     (if validateProduct p = [] then sess @ [SaveProduct k p] else sess)"

text \<open>\<open>await doc.save()\<close> outside any session: validated, then written at once.\<close>

definition saveDirect :: "objectId \<Rightarrow> product \<Rightarrow> store \<Rightarrow> error + store" where
  "saveDirect k p s =
     (if validateProduct p = [] then Inr (applyWrite s (SaveProduct k p))
      else Inl (ValidationFailed (validateProduct p)))"

section \<open>Collaborators that are not part of the sources\<close>

text \<open>
  Modelled from the spec: \<open>createProductImage\<close> (the Image Record Manager,
  \<open>createImage(file, ownerProductId, session) -> imageId\<close>) persists a ProductImage
  record with a derived path within the given session and returns the new identity;
  it uploads no bytes. The identity it generates is supplied by the caller of the model
  as \<open>newId\<close>.
\<close>

definition createProductImage ::
  "objectId \<Rightarrow> imageFile \<Rightarrow> objectId \<Rightarrow> session \<Rightarrow> objectId \<times> session" where
  "createProductImage newId f ownerProductId sess =
     (newId, sess @ [SaveImage newId \<lparr>url = f\<rparr>])"

text \<open>
  Modelled from the spec: \<open>doesArraysHaveSimilarElements\<close> accepts two lists that have
  the same cardinality and the same elements, in any order.
\<close>

definition doesArraysHaveSimilarElements :: "string list \<Rightarrow> string list \<Rightarrow> bool" where
  "doesArraysHaveSimilarElements xs ys \<longleftrightarrow>
     length xs = length ys \<and> list_all (\<lambda>x. x \<in> set ys) xs \<and> list_all (\<lambda>y. y \<in> set xs) ys"

text \<open>
  The file store gateway: \<open>fileStore f\<close> tells whether the upload (or the deletion) of
  the file at path \<open>f\<close> succeeds. \<open>uploadAll\<close> is the loop
  \<open>for (let file of productImgFiles) await uploadProductImageFile(file)\<close>, which stops
  at the first upload that throws.
\<close>

fun uploadAll :: "(imageFile \<Rightarrow> bool) \<Rightarrow> imageFile list \<Rightarrow> error option" where
  "uploadAll fileStore [] = None"
| "uploadAll fileStore (f # fs) =
     (if fileStore f then uploadAll fileStore fs else Some (FileStoreFailed f))"

text \<open>
  A request body that is expected to be an array of id strings, as the handlers
  classify it: absent (falsy), present but failing the check for an array of strings,
  or passing it. \<open>rearrangeImagesOfProduct\<close> makes the check inline. For
  \<open>editSimilarProductsOfProduct\<close> the check is \<open>isValidArrayOfStrings\<close>, which is not
  part of the sources, as is \<open>convertStringIdsToObjectId\<close>: there \<open>ArrayOfStrings xs\<close>
  stands for a body that passes the former, with \<open>xs\<close> the ids the latter converts it
  to.
\<close>

datatype body = Absent | NotArrayOfStrings | ArrayOfStrings "string list"

subsection \<open>Populated image references\<close>

text \<open>
  \<open>.populate('images')\<close> replaces the image ids of a loaded product by the image
  documents they refer to; a reference without a stored record is left out. An element
  of the loaded array is then a document, not an id.
\<close>

datatype imageRef = ImageId objectId | ImageDoc objectId productImage

fun refId :: "imageRef \<Rightarrow> objectId" where
  "refId (ImageId i) = i"
| "refId (ImageDoc i img) = i"

fun populateImages :: "store \<Rightarrow> objectId list \<Rightarrow> imageRef list" where
  "populateImages s [] = []"
| "populateImages s (i # ids) =
     (case productImages s i of
        None \<Rightarrow> populateImages s ids
      | Some img \<Rightarrow> ImageDoc i img # populateImages s ids)"

text \<open>
  \<open>toString()\<close> of an element of the loaded array: an id gives its hexadecimal string,
  a document is rendered as an object literal. Whatever the layout of the rendering,
  it begins with a brace.
\<close>

fun refToString :: "imageRef \<Rightarrow> string" where
  "refToString (ImageId i) = i"
| "refToString (ImageDoc i img) = ''{ _id: '' @ i @ '', url: '' @ url img @ '' }''"

text \<open>
  \<open>new Types.ObjectId(s)\<close> accepts a string of 24 hexadecimal digits and throws on
  any other string.
\<close>

definition isHexDigit :: "char \<Rightarrow> bool" where
  "isHexDigit c \<longleftrightarrow> c \<in> set ''0123456789abcdefABCDEF''"

definition newObjectId :: "string \<Rightarrow> error + objectId" where
  "newObjectId s =
     (if length s = 24 \<and> list_all isHexDigit s then Inr s else Inl (InvalidObjectId s))"

text \<open>\<open>xs.map(s => new Types.ObjectId(s))\<close>: the first string refused throws.\<close>

fun newObjectIds :: "string list \<Rightarrow> error + objectId list" where
  "newObjectIds [] = Inr []"
| "newObjectIds (s # ss) =
     (case newObjectId s of
        Inl e \<Rightarrow> Inl e
      | Inr i \<Rightarrow> (case newObjectIds ss of Inl e \<Rightarrow> Inl e | Inr is \<Rightarrow> Inr (i # is)))"

section \<open>The handlers\<close>

text \<open>
  Every handler maps the committed store and the request to the response given to
  \<open>next\<close> and the committed store afterwards. A \<open>throw\<close> before
  \<open>commitTransaction\<close> reaches the \<open>catch\<close> block, which aborts the session and
  answers with a \<open>CustomError\<close>: the store is the one the handler started from. A
  \<open>throw\<close> after the commit reaches the same \<open>catch\<close> block, but there
  \<open>await session.abortTransaction()\<close> is refused by the driver, because the session
  has committed: the error is thrown inside the \<open>catch\<close> block, the lines after it
  are not reached, and the handler ends without an answer, the store being the
  committed one. A commit is taken to succeed.
\<close>

subsection \<open>createProduct\<close>

text \<open>
  \<open>for (let file of productImgFiles)\<close>: one image record per file, its id appended
  to the product's images. \<open>newIds k\<close> is the k-th identity generated during the
  request: \<open>newIds 0\<close> for the product, then one per image record.
\<close>

fun createImages ::
  "(nat \<Rightarrow> objectId) \<Rightarrow> nat \<Rightarrow> objectId \<Rightarrow> imageFile list \<Rightarrow> product \<Rightarrow> session
     \<Rightarrow> product \<times> session" where
  "createImages newIds k pid [] p sess = (p, sess)"
| "createImages newIds k pid (f # fs) p sess =
     (case createProductImage (newIds k) f pid sess of
        (productImgId, sess') \<Rightarrow>
          createImages newIds (Suc k) pid fs (p\<lparr>images := images p @ [productImgId]\<rparr>) sess')"

text \<open>
  \<open>for (let productId of productData.similarProducts)\<close>: each listed product is read
  from the committed store, must exist, and gets the mutual edge.
\<close>

fun linkSimilarProducts ::
  "store \<Rightarrow> objectId \<Rightarrow> objectId list \<Rightarrow> product \<Rightarrow> session \<Rightarrow> error + product \<times> session" where
  "linkSimilarProducts s pid [] p sess = Inr (p, sess)"
| "linkSimilarProducts s pid (productId # rest) p sess =
     (case products s productId of
        None \<Rightarrow> Inl (SimilarProductNotFound productId)
      | Some similarProduct \<Rightarrow>
          linkSimilarProducts s pid rest
            (p\<lparr>similarProducts := similarProducts p @ [productId]\<rparr>)
            (saveUnawaited productId
               (similarProduct\<lparr>similarProducts := similarProducts similarProduct @ [pid]\<rparr>)
               sess))"

definition newProduct :: "productData \<Rightarrow> product" where
  "newProduct productData =
     \<lparr>name = name productData, description = description productData,
      quantityInStock = quantityInStock productData, category = category productData,
      isPopular = isPopular productData, price = price productData,
      similarProducts = [], images = []\<rparr>"

text \<open>
  The \<open>try\<close> block of \<open>createProduct\<close> from the count check up to and including
  \<open>session.commitTransaction()\<close>: an error thrown before the commit, or the new
  product's identity, its document and the committed store.
\<close>

definition createProductCommit ::
  "(nat \<Rightarrow> objectId) \<Rightarrow> store \<Rightarrow> imageFile list \<Rightarrow> productData
     \<Rightarrow> error + objectId \<times> product \<times> store" where
  "createProductCommit newIds s productImgFiles productData =
     (let pid = newIds 0; product = newProduct productData in
      if length productImgFiles > MAX_IMAGES_PER_PRODUCT
      then Inl MaximumImagesPerProduct
      else
        case createImages newIds 1 pid productImgFiles product [] of
          (product1, sess1) \<Rightarrow>
            case linkSimilarProducts s pid (similarProducts productData) product1 sess1 of
              Inl e \<Rightarrow> Inl e
            | Inr (product2, sess2) \<Rightarrow>
                case save pid product2 sess2 of
                  Inl e \<Rightarrow> Inl e
                | Inr sess3 \<Rightarrow> Inr (pid, product2, commitTransaction s sess3))"

text \<open>
  The handler: \<open>files\<close> is \<open>None\<close> when \<open>req.files\<close> is not an array. The uploads
  follow the commit inside the same \<open>try\<close> block, so an upload that throws is caught
  by the same \<open>catch\<close>, after the store has been committed.
\<close>

definition createProduct ::
  "(nat \<Rightarrow> objectId) \<Rightarrow> (imageFile \<Rightarrow> bool) \<Rightarrow> store \<Rightarrow> imageFile list option \<Rightarrow> productData
     \<Rightarrow> response \<times> store" where
  "createProduct newIds fileStore s files productData =
     (case files of
        None \<Rightarrow> (CustomError ImageFilesNotPresent 400, s)
      | Some productImgFiles \<Rightarrow>
          case createProductCommit newIds s productImgFiles productData of
            Inl e \<Rightarrow> (CustomError e 400, s)
          | Inr (pid, product, s') \<Rightarrow>
              case uploadAll fileStore productImgFiles of
                Some e \<Rightarrow> (NoResponse CannotAbortAfterCommit, s')
              | None \<Rightarrow> (CustomSuccess pid product 200, s'))"

subsection \<open>getProduct\<close>

definition getProduct :: "store \<Rightarrow> objectId \<Rightarrow> response \<times> store" where
  "getProduct s productId =
     (case products s productId of
        None \<Rightarrow> (CustomError (ProductNotFound productId) 500, s)
      | Some product \<Rightarrow> (CustomSuccess productId product 200, s))"

subsection \<open>addNewImageOfProduct\<close>

text \<open>
  The \<open>try\<close> block of \<open>addNewImageOfProduct\<close> for an uploaded file, up to and
  including the commit. The handler reads only the length of the loaded image array
  and appends to it; the loaded array is taken to have one element per stored
  reference, every referenced image record being present.
\<close>

definition addNewImageCommit ::
  "objectId \<Rightarrow> store \<Rightarrow> objectId \<Rightarrow> imageFile \<Rightarrow> error + product \<times> store" where
  "addNewImageCommit newId s productId productImgFile =
     (case products s productId of
        None \<Rightarrow> Inl (ProductNotFound productId)
      | Some product \<Rightarrow>
          if \<not> (length (images product) < MAX_IMAGES_PER_PRODUCT)
          then Inl AlreadyMaxImages
          else
            case createProductImage newId productImgFile productId [] of
              (productImgId, sess1) \<Rightarrow>
                let product1 = product\<lparr>images := images product @ [productImgId]\<rparr> in
                case save productId product1 sess1 of
                  Inl e \<Rightarrow> Inl e
                | Inr sess2 \<Rightarrow> Inr (product1, commitTransaction s sess2))"

text \<open>
  The handler: \<open>file\<close> is \<open>None\<close> when no file was uploaded with the request. As in
  \<open>createProduct\<close>, the upload follows the commit inside the same \<open>try\<close> block.
\<close>

definition addNewImageOfProduct ::
  "objectId \<Rightarrow> (imageFile \<Rightarrow> bool) \<Rightarrow> store \<Rightarrow> objectId \<Rightarrow> imageFile option
     \<Rightarrow> response \<times> store" where
  "addNewImageOfProduct newId fileStore s productId file =
     (case file of
        None \<Rightarrow> (CustomError ImageNotUploaded 400, s)
      | Some productImgFile \<Rightarrow>
          case addNewImageCommit newId s productId productImgFile of
            Inl e \<Rightarrow> (CustomError e 400, s)
          | Inr (product, s') \<Rightarrow>
              if fileStore productImgFile then (CustomSuccess productId product 200, s')
              else (NoResponse CannotAbortAfterCommit, s'))"

subsection \<open>deleteImageOfProduct\<close>

text \<open>
  \<open>indexOf\<close> gives the first index of an element, or \<open>-1\<close>; \<open>splice(i, 1)\<close> removes
  the element at index \<open>i\<close>. The handler searches the loaded array, whose elements
  are image documents, for the id \<open>image._id\<close>.
\<close>

fun indexOf :: "'a list \<Rightarrow> 'a \<Rightarrow> int" where
  "indexOf [] x = - 1"
| "indexOf (y # ys) x =
     (if y = x then 0 else (let i = indexOf ys x in if i < 0 then - 1 else i + 1))"

definition splice1 :: "'a list \<Rightarrow> nat \<Rightarrow> 'a list" where
  "splice1 xs i = take i xs @ drop (Suc i) xs"

definition deleteImageOfProduct ::
  "(string \<Rightarrow> bool) \<Rightarrow> store \<Rightarrow> objectId \<Rightarrow> objectId \<Rightarrow> response \<times> store" where
  "deleteImageOfProduct fileStore s productId imageId =
     (case products s productId of
        None \<Rightarrow> (CustomError (ProductNotFound productId) 400, s)
      | Some product \<Rightarrow>
          case productImages s imageId of
            None \<Rightarrow> (CustomError (ImageNotFound imageId) 400, s)
          | Some img \<Rightarrow>
              let imagePath = url img;
                  loadedImages = populateImages s (images product);
                  indexOfImage = indexOf loadedImages (ImageId imageId) in
              if indexOfImage < 0
              then (CustomError (ImageDoesNotBelong imageId productId) 400, s)
              else
                let product1 =
                      product\<lparr>images := map refId (splice1 loadedImages (nat indexOfImage))\<rparr> in
                case save productId product1 [DeleteImage imageId] of
                  Inl e \<Rightarrow> (CustomError e 400, s)
                | Inr sess \<Rightarrow>
                    let s' = commitTransaction s sess in
                    if fileStore imagePath
                    then (CustomSuccess productId product1 200, s')
                    else (NoResponse CannotAbortAfterCommit, s'))"

subsection \<open>rearrangeImagesOfProduct\<close>

definition rearrangeImagesOfProduct :: "store \<Rightarrow> objectId \<Rightarrow> body \<Rightarrow> response \<times> store" where
  "rearrangeImagesOfProduct s productId payload =
     (case products s productId of
        None \<Rightarrow> (CustomError (ProductNotFound productId) 400, s)
      | Some product \<Rightarrow>
          case payload of
            Absent \<Rightarrow> (CustomError PayloadNotArrayOfStrings 400, s)
          | NotArrayOfStrings \<Rightarrow> (CustomError PayloadNotArrayOfStrings 400, s)
          | ArrayOfStrings rearrangedImages \<Rightarrow>
              if \<not> doesArraysHaveSimilarElements rearrangedImages
                     (map refToString (populateImages s (images product)))
              then (CustomError ImagesAreDifferent 400, s)
              else
                case newObjectIds rearrangedImages of
                  Inl e \<Rightarrow> (CustomError e 400, s)
                | Inr ids \<Rightarrow>
                    let product1 = product\<lparr>images := ids\<rparr> in
                    case saveDirect productId product1 s of
                      Inl e \<Rightarrow> (CustomError e 400, s)
                    | Inr s' \<Rightarrow> (CustomSuccess productId product1 200, s'))"

subsection \<open>editQuantityOfProduct\<close>

text \<open>
  \<open>req.body.quantityInStock\<close> is a number, as \<open>ProductInterface\<close> types the field, or
  is absent (\<open>None\<close>); \<open>!newProductQuantity\<close> holds when it is absent and when it
  is the number 0.
\<close>

definition editQuantityOfProduct :: "store \<Rightarrow> objectId \<Rightarrow> int option \<Rightarrow> response \<times> store" where
  "editQuantityOfProduct s productId newProductQuantity =
     (case newProductQuantity of
        None \<Rightarrow> (CustomError NewQuantityNotPresent 500, s)
      | Some q \<Rightarrow>
          if q = 0 then (CustomError NewQuantityNotPresent 500, s)
          else
            case products s productId of
              None \<Rightarrow> (CustomError (ProductNotFound productId) 500, s)
            | Some product \<Rightarrow>
                let product1 = product\<lparr>quantityInStock := q\<rparr> in
                case saveDirect productId product1 s of
                  Inl e \<Rightarrow> (CustomError e 500, s)
                | Inr s' \<Rightarrow> (CustomSuccess productId product1 200, s'))"

subsection \<open>editSimilarProductsOfProduct\<close>

text \<open>
  \<open>for (let productId of removeSimilarProductIds)\<close>: an endpoint that no longer exists
  in the committed store is skipped; otherwise the edge is removed on both sides.
\<close>

fun removeSimilarProducts ::
  "store \<Rightarrow> objectId \<Rightarrow> objectId list \<Rightarrow> product \<Rightarrow> session \<Rightarrow> product \<times> session" where
  "removeSimilarProducts s pid [] p sess = (p, sess)"
| "removeSimilarProducts s pid (productId # rest) p sess =
     (case products s productId of
        None \<Rightarrow> removeSimilarProducts s pid rest p sess
      | Some oldSimilarProduct \<Rightarrow>
          removeSimilarProducts s pid rest
            (p\<lparr>similarProducts := filter (\<lambda>i. i \<noteq> productId) (similarProducts p)\<rparr>)
            (saveUnawaited productId
               (oldSimilarProduct\<lparr>similarProducts :=
                  filter (\<lambda>i. i \<noteq> pid) (similarProducts oldSimilarProduct)\<rparr>)
               sess))"

text \<open>
  \<open>for (let productId of addSimilarProductIds)\<close>: the product itself is refused, a
  missing endpoint is refused, otherwise the edge is added on both sides.
\<close>

fun addSimilarProducts ::
  "store \<Rightarrow> objectId \<Rightarrow> objectId list \<Rightarrow> product \<Rightarrow> session \<Rightarrow> error + product \<times> session" where
  "addSimilarProducts s pid [] p sess = Inr (p, sess)"
| "addSimilarProducts s pid (productId # rest) p sess =
     (if pid = productId then Inl CannotAddItself
      else
        case products s productId of
          None \<Rightarrow> Inl (SimilarProductNotFound productId)
        | Some newSimilarProduct \<Rightarrow>
            addSimilarProducts s pid rest
              (p\<lparr>similarProducts := similarProducts p @ [productId]\<rparr>)
              (saveUnawaited productId
                 (newSimilarProduct\<lparr>similarProducts :=
                    similarProducts newSimilarProduct @ [pid]\<rparr>)
                 sess))"

definition removeSimilarProductIds :: "product \<Rightarrow> objectId list \<Rightarrow> objectId list" where
  "removeSimilarProductIds product newSimilarProductList =
     filter (\<lambda>oldProductId. \<not> list_ex (\<lambda>newProductId. newProductId = oldProductId)
                                newSimilarProductList)
       (similarProducts product)"

definition addSimilarProductIds :: "product \<Rightarrow> objectId list \<Rightarrow> objectId list" where
  "addSimilarProductIds product newSimilarProductList =
     filter (\<lambda>newProductId. \<not> list_ex (\<lambda>oldProductId. oldProductId = newProductId)
                                (similarProducts product))
       newSimilarProductList"

definition editSimilarProductsOfProduct :: "store \<Rightarrow> objectId \<Rightarrow> body \<Rightarrow> response \<times> store" where
  "editSimilarProductsOfProduct s productId reqBody =
     (case reqBody of
        Absent \<Rightarrow> (CustomError SimilarArrayNotPresent 500, s)
      | NotArrayOfStrings \<Rightarrow> (CustomError InvalidSimilarArray 500, s)
      | ArrayOfStrings newSimilarProductList \<Rightarrow>
          case products s productId of
            None \<Rightarrow> (CustomError (ProductNotFound productId) 500, s)
          | Some product \<Rightarrow>
              case removeSimilarProducts s productId
                     (removeSimilarProductIds product newSimilarProductList) product [] of
                (product1, sess1) \<Rightarrow>
                  case addSimilarProducts s productId
                         (addSimilarProductIds product newSimilarProductList) product1 sess1 of
                    Inl e \<Rightarrow> (CustomError e 500, s)
                  | Inr (product2, sess2) \<Rightarrow>
                      case save productId product2 sess2 of
                        Inl e \<Rightarrow> (CustomError e 500, s)
                      | Inr sess3 \<Rightarrow>
                          (CustomSuccess productId product2 200, commitTransaction s sess3))"

section \<open>Sample data\<close>

text \<open>
  A schema-valid product with the given images and similar products, and a store built
  from its two collections; the concrete stores below are the inputs at which the
  results are evaluated.
\<close>

definition sampleProduct :: "objectId list \<Rightarrow> objectId list \<Rightarrow> product" where
  "sampleProduct imgs sims =
     \<lparr>name = ''Ring'', description = '''', quantityInStock = 5, category = OTHERS,
      isPopular = False, price = 10, similarProducts = sims, images = imgs\<rparr>"

definition sampleData :: "objectId list \<Rightarrow> productData" where
  "sampleData sims =
     \<lparr>name = ''Ring'', description = '''', quantityInStock = 5, category = OTHERS,
      isPopular = False, price = 10, similarProducts = sims\<rparr>"

definition storeOf ::
  "(objectId \<times> product) list \<Rightarrow> (objectId \<times> productImage) list \<Rightarrow> store" where
  "storeOf ps is = \<lparr>products = map_of ps, productImages = map_of is\<rparr>"

definition catalog :: store where
  "catalog =
     storeOf [(''a'', sampleProduct [''i1''] []), (''b'', sampleProduct [''i2'', ''i3''] [])]
             [(''i1'', \<lparr>url = ''f1''\<rparr>), (''i2'', \<lparr>url = ''f2''\<rparr>), (''i3'', \<lparr>url = ''f3''\<rparr>)]"

definition catalogDangling :: store where
  "catalogDangling =
     storeOf [(''a'', sampleProduct [''i1''] [''x''])] [(''i1'', \<lparr>url = ''f1''\<rparr>)]"

text \<open>A store in which \<open>a\<close> lists \<open>b\<close> while \<open>b\<close> does not list \<open>a\<close>.\<close>

definition catalogOneWay :: store where
  "catalogOneWay =
     storeOf [(''a'', sampleProduct [''i1''] [''b'']), (''b'', sampleProduct [''i2'', ''i3''] [])]
             [(''i1'', \<lparr>url = ''f1''\<rparr>), (''i2'', \<lparr>url = ''f2''\<rparr>), (''i3'', \<lparr>url = ''f3''\<rparr>)]"

definition newIdsSample :: "nat \<Rightarrow> objectId" where
  "newIdsSample k = (if k = 0 then ''p'' else if k = 1 then ''j1'' else ''j2'')"

text \<open>A file store whose every call succeeds, and one whose every call fails.\<close>

definition fileStoreUp :: "imageFile \<Rightarrow> bool" where
  "fileStoreUp f = True"

definition fileStoreDown :: "imageFile \<Rightarrow> bool" where
  "fileStoreDown f = False"

section \<open>Auxiliary lemmas\<close>

subsection \<open>Sessions and the relation loops\<close>

lemma commitTransaction_Nil: "commitTransaction s [] = s"
  by (simp add: commitTransaction_def)

lemma commitTransaction_snoc:
  "commitTransaction s (sess @ [w]) = applyWrite (commitTransaction s sess) w"
  by (simp add: commitTransaction_def)

lemma validateProduct_similarProducts:
  "validateProduct (p\<lparr>similarProducts := xs\<rparr>) = validateProduct p"
  by (simp add: validateProduct_def)

lemma commit_saveUnawaited_products:
  "products (commitTransaction s (saveUnawaited k p sess)) j =
     (if validateProduct p = [] \<and> j = k then Some p
      else products (commitTransaction s sess) j)"
  by (simp add: saveUnawaited_def commitTransaction_snoc)

lemma commit_saveUnawaited_images:
  "productImages (commitTransaction s (saveUnawaited k p sess)) =
     productImages (commitTransaction s sess)"
  by (simp add: saveUnawaited_def commitTransaction_snoc)

lemma removeSimilarProducts_product:
  "fst (removeSimilarProducts s pid rs p sess) =
     p\<lparr>similarProducts :=
         filter (\<lambda>i. \<not> (i \<in> set rs \<and> products s i \<noteq> None)) (similarProducts p)\<rparr>"
proof (induction rs arbitrary: p sess)
  case Nil
  then show ?case by simp
next
  case (Cons r rs)
  show ?case
  proof (cases "products s r")
    case None
    have "filter (\<lambda>i. \<not> (i \<in> set (r # rs) \<and> products s i \<noteq> None)) (similarProducts p)
        = filter (\<lambda>i. \<not> (i \<in> set rs \<and> products s i \<noteq> None)) (similarProducts p)"
      using None by (intro filter_cong) auto
    then show ?thesis using None Cons.IH by simp
  next
    case (Some old)
    have "filter (\<lambda>i. \<not> (i \<in> set rs \<and> products s i \<noteq> None))
            (filter (\<lambda>i. i \<noteq> r) (similarProducts p))
        = filter (\<lambda>i. \<not> (i \<in> set (r # rs) \<and> products s i \<noteq> None)) (similarProducts p)"
      using Some by (auto intro: filter_cong)
    then show ?thesis using Some Cons.IH by simp
  qed
qed

lemma removeSimilarProducts_products:
  "products (commitTransaction s (snd (removeSimilarProducts s pid rs p sess))) k =
     (case (if k \<in> set rs then products s k else None) of
        None \<Rightarrow> products (commitTransaction s sess) k
      | Some old \<Rightarrow>
          if validateProduct old = []
          then Some (old\<lparr>similarProducts := filter (\<lambda>i. i \<noteq> pid) (similarProducts old)\<rparr>)
          else products (commitTransaction s sess) k)"
proof (induction rs arbitrary: p sess)
  case Nil
  then show ?case by simp
next
  case (Cons r rs)
  show ?case
  proof (cases "products s r")
    case None
    then show ?thesis using Cons.IH by (auto split: option.splits)
  next
    case (Some old)
    then show ?thesis using Cons.IH
      by (auto simp: commit_saveUnawaited_products validateProduct_similarProducts
               split: option.splits)
  qed
qed

lemma removeSimilarProducts_images:
  "productImages (commitTransaction s (snd (removeSimilarProducts s pid rs p sess))) =
     productImages (commitTransaction s sess)"
  by (induction rs arbitrary: p sess)
     (auto simp: commit_saveUnawaited_images split: option.splits)

lemma addSimilarProducts_Inr:
  "addSimilarProducts s pid xs p sess = Inr (p', sess') \<Longrightarrow>
     p' = p\<lparr>similarProducts := similarProducts p @ xs\<rparr> \<and> pid \<notin> set xs \<and>
     (\<forall>x\<in>set xs. products s x \<noteq> None)"
proof (induction xs arbitrary: p sess)
  case Nil
  then show ?case by simp
next
  case (Cons x xs)
  from Cons.prems obtain np where np: "pid \<noteq> x" "products s x = Some np"
    by (auto split: if_splits option.splits)
  with Cons.prems have rec: "addSimilarProducts s pid xs
      (p\<lparr>similarProducts := similarProducts p @ [x]\<rparr>)
      (saveUnawaited x (np\<lparr>similarProducts := similarProducts np @ [pid]\<rparr>) sess)
      = Inr (p', sess')"
    by simp
  from Cons.IH [OF rec] np show ?case by simp
qed

lemma addSimilarProducts_products:
  "addSimilarProducts s pid xs p sess = Inr (p', sess') \<Longrightarrow>
   products (commitTransaction s sess') k =
     (case (if k \<in> set xs then products s k else None) of
        None \<Rightarrow> products (commitTransaction s sess) k
      | Some np \<Rightarrow>
          if validateProduct np = []
          then Some (np\<lparr>similarProducts := similarProducts np @ [pid]\<rparr>)
          else products (commitTransaction s sess) k)"
proof (induction xs arbitrary: p sess)
  case Nil
  then show ?case by simp
next
  case (Cons x xs)
  from Cons.prems obtain np where np: "pid \<noteq> x" "products s x = Some np"
    by (auto split: if_splits option.splits)
  with Cons.prems have rec: "addSimilarProducts s pid xs
      (p\<lparr>similarProducts := similarProducts p @ [x]\<rparr>)
      (saveUnawaited x (np\<lparr>similarProducts := similarProducts np @ [pid]\<rparr>) sess)
      = Inr (p', sess')"
    by simp
  from Cons.IH [OF rec] np show ?case
    by (auto simp: commit_saveUnawaited_products validateProduct_similarProducts
             split: option.splits)
qed

lemma addSimilarProducts_images:
  "addSimilarProducts s pid xs p sess = Inr (p', sess') \<Longrightarrow>
   productImages (commitTransaction s sess') = productImages (commitTransaction s sess)"
proof (induction xs arbitrary: p sess)
  case Nil
  then show ?case by simp
next
  case (Cons x xs)
  from Cons.prems obtain np where np: "pid \<noteq> x" "products s x = Some np"
    by (auto split: if_splits option.splits)
  with Cons.prems have rec: "addSimilarProducts s pid xs
      (p\<lparr>similarProducts := similarProducts p @ [x]\<rparr>)
      (saveUnawaited x (np\<lparr>similarProducts := similarProducts np @ [pid]\<rparr>) sess)
      = Inr (p', sess')"
    by simp
  from Cons.IH [OF rec] show ?case
    by (simp add: commit_saveUnawaited_images)
qed

lemma addSimilarProducts_Inl:
  "pid \<in> set xs \<or> (\<exists>x\<in>set xs. products s x = None) \<Longrightarrow>
   \<exists>e. addSimilarProducts s pid xs p sess = Inl e"
  by (induction xs arbitrary: p sess) (auto split: option.splits)

lemma save_Inr:
  "save k p sess = Inr sess' \<longleftrightarrow> validateProduct p = [] \<and> sess' = sess @ [SaveProduct k p]"
  by (auto simp: save_def)

lemma editSimilarProducts_error:
  assumes "editSimilarProductsOfProduct s A reqBody = (CustomError e st, s')"
  shows "s' = s \<and> st = 500"
  using assms
  by (auto simp: editSimilarProductsOfProduct_def
           split: body.splits option.splits prod.splits sum.splits)

lemma editSimilarProducts_success:
  assumes a: "products s A = Some a"
    and ok: "editSimilarProductsOfProduct s A (ArrayOfStrings new) = (CustomSuccess A' p2 st, s')"
    and rem_def: "rem = removeSimilarProductIds a new"
    and add_def: "add = addSimilarProductIds a new"
  shows "A' = A" and "st = 200"
    and "p2 = a\<lparr>similarProducts :=
                 filter (\<lambda>i. \<not> (i \<in> set rem \<and> products s i \<noteq> None)) (similarProducts a) @ add\<rparr>"
    and "validateProduct a = []"
    and "A \<notin> set add" and "\<forall>x\<in>set add. products s x \<noteq> None"
    and "products s' A = Some p2"
    and "productImages s' = productImages s"
    and "k \<noteq> A \<Longrightarrow> products s' k =
           (case (if k \<in> set add then products s k else None) of
              Some np \<Rightarrow>
                if validateProduct np = []
                then Some (np\<lparr>similarProducts := similarProducts np @ [A]\<rparr>)
                else products s k
            | None \<Rightarrow>
                (case (if k \<in> set rem then products s k else None) of
                   None \<Rightarrow> products s k
                 | Some old \<Rightarrow>
                     if validateProduct old = []
                     then Some (old\<lparr>similarProducts :=
                                  filter (\<lambda>i. i \<noteq> A) (similarProducts old)\<rparr>)
                     else products s k))"
proof -
  obtain p1 sess1 where r: "removeSimilarProducts s A rem a [] = (p1, sess1)"
    by (cases "removeSimilarProducts s A rem a []") auto
  from ok a r have body:
    "(case addSimilarProducts s A add p1 sess1 of
        Inl e \<Rightarrow> (CustomError e 500, s)
      | Inr (product2, sess2) \<Rightarrow>
          (case save A product2 sess2 of
             Inl e \<Rightarrow> (CustomError e 500, s)
           | Inr sess3 \<Rightarrow> (CustomSuccess A product2 200, commitTransaction s sess3)))
     = (CustomSuccess A' p2 st, s')"
    unfolding editSimilarProductsOfProduct_def rem_def add_def by simp
  then obtain q sess2 where ad0: "addSimilarProducts s A add p1 sess1 = Inr (q, sess2)"
    by (cases "addSimilarProducts s A add p1 sess1") auto
  with body obtain sess3 where sv0: "save A q sess2 = Inr sess3"
    by (cases "save A q sess2") auto
  from body ad0 sv0 have q: "q = p2" and s': "s' = commitTransaction s sess3"
    and ids: "A' = A" "st = 200"
    by simp_all
  from ad0 q have ad: "addSimilarProducts s A add p1 sess1 = Inr (p2, sess2)" by simp
  from sv0 q have sv: "save A p2 sess2 = Inr sess3" by simp
  show "A' = A" "st = 200" by (rule ids)+
  have p1: "p1 = a\<lparr>similarProducts :=
         filter (\<lambda>i. \<not> (i \<in> set rem \<and> products s i \<noteq> None)) (similarProducts a)\<rparr>"
    using removeSimilarProducts_product [of s A rem a "[]"] r by simp
  from addSimilarProducts_Inr [OF ad]
  have p2: "p2 = p1\<lparr>similarProducts := similarProducts p1 @ add\<rparr>"
    and na: "A \<notin> set add" and ex: "\<forall>x\<in>set add. products s x \<noteq> None"
    by auto
  show "p2 = a\<lparr>similarProducts :=
                 filter (\<lambda>i. \<not> (i \<in> set rem \<and> products s i \<noteq> None)) (similarProducts a) @ add\<rparr>"
    using p1 p2 by simp
  then show "validateProduct a = []"
    using sv by (simp add: save_Inr validateProduct_similarProducts)
  show "A \<notin> set add" by (rule na)
  show "\<forall>x\<in>set add. products s x \<noteq> None" by (rule ex)
  from sv have sess3: "sess3 = sess2 @ [SaveProduct A p2]" by (simp add: save_Inr)
  show "products s' A = Some p2"
    by (simp add: s' sess3 commitTransaction_snoc)
  have "productImages s' = productImages (commitTransaction s sess2)"
    by (simp add: s' sess3 commitTransaction_snoc)
  also have "\<dots> = productImages (commitTransaction s sess1)"
    by (rule addSimilarProducts_images [OF ad])
  also have "\<dots> = productImages s"
    using removeSimilarProducts_images [of s A rem a "[]"] r
    by (simp add: commitTransaction_Nil)
  finally show "productImages s' = productImages s" .
  assume k: "k \<noteq> A"
  have "products s' k = products (commitTransaction s sess2) k"
    using k by (simp add: s' sess3 commitTransaction_snoc)
  moreover have "products (commitTransaction s sess1) k =
      (case (if k \<in> set rem then products s k else None) of
         None \<Rightarrow> products s k
       | Some old \<Rightarrow>
           if validateProduct old = []
           then Some (old\<lparr>similarProducts := filter (\<lambda>i. i \<noteq> A) (similarProducts old)\<rparr>)
           else products s k)"
    using removeSimilarProducts_products [of s A rem a "[]" k, unfolded commitTransaction_Nil] r
    by simp
  ultimately show "products s' k =
           (case (if k \<in> set add then products s k else None) of
              Some np \<Rightarrow>
                if validateProduct np = []
                then Some (np\<lparr>similarProducts := similarProducts np @ [A]\<rparr>)
                else products s k
            | None \<Rightarrow>
                (case (if k \<in> set rem then products s k else None) of
                   None \<Rightarrow> products s k
                 | Some old \<Rightarrow>
                     if validateProduct old = []
                     then Some (old\<lparr>similarProducts :=
                                  filter (\<lambda>i. i \<noteq> A) (similarProducts old)\<rparr>)
                     else products s k))"
    using addSimilarProducts_products [OF ad, of k]
    by (auto split: option.splits if_splits)
qed

lemma addSimilarProducts_self:
  "pid \<in> set xs \<Longrightarrow>
   addSimilarProducts s pid xs p sess =
     Inl (case find (\<lambda>x. products s x = None) (takeWhile (\<lambda>x. x \<noteq> pid) xs) of
            None \<Rightarrow> CannotAddItself
          | Some x \<Rightarrow> SimilarProductNotFound x)"
  by (induction xs arbitrary: p sess) (auto split: option.splits)

lemma editSimilarProducts_add_error:
  assumes "products s A = Some a"
    and "addSimilarProducts s A (addSimilarProductIds a new)
           (fst (removeSimilarProducts s A (removeSimilarProductIds a new) a []))
           (snd (removeSimilarProducts s A (removeSimilarProductIds a new) a [])) = Inl e"
  shows "editSimilarProductsOfProduct s A (ArrayOfStrings new) = (CustomError e 500, s)"
  using assms by (auto simp: editSimilarProductsOfProduct_def split: prod.splits)

lemmas eval_defs = catalog_def catalogDangling_def catalogOneWay_def storeOf_def
  sampleProduct_def
  fileStoreUp_def fileStoreDown_def
  editSimilarProductsOfProduct_def removeSimilarProductIds_def addSimilarProductIds_def
  save_def saveUnawaited_def validateProduct_def commitTransaction_def
  MAX_IMAGES_PER_PRODUCT_def MIN_IMAGES_PER_PRODUCT_def MIN_QTY_IN_STOCK_def MIN_PRODUCT_PRICE_def

subsection \<open>Populated images and the create loops\<close>

lemma indexOf_populateImages:
  "indexOf (populateImages s ids) (ImageId i) = - 1"
  by (induction ids) (auto split: option.splits)

lemma linkSimilarProducts_missing:
  "find (\<lambda>x. products s x = None) xs = Some x \<Longrightarrow>
   linkSimilarProducts s pid xs p sess = Inl (SimilarProductNotFound x)"
  by (induction xs arbitrary: p sess) (auto split: option.splits if_splits)

lemma linkSimilarProducts_present:
  "find (\<lambda>x. products s x = None) xs = None \<Longrightarrow>
   \<exists>sess'. linkSimilarProducts s pid xs p sess =
             Inr (p\<lparr>similarProducts := similarProducts p @ xs\<rparr>, sess')"
proof (induction xs arbitrary: p sess)
  case Nil
  then show ?case by simp
next
  case (Cons x xs)
  from Cons.prems obtain sp where sp: "products s x = Some sp"
    and rest: "find (\<lambda>x. products s x = None) xs = None"
    by (auto split: if_splits)
  from Cons.IH [OF rest,
      of "p\<lparr>similarProducts := similarProducts p @ [x]\<rparr>"
         "saveUnawaited x (sp\<lparr>similarProducts := similarProducts sp @ [pid]\<rparr>) sess"]
  show ?case using sp by simp
qed

lemma linkSimilarProducts_images:
  "linkSimilarProducts s pid xs p sess = Inr (p', sess') \<Longrightarrow>
   productImages (commitTransaction s sess') = productImages (commitTransaction s sess) \<and>
   images p' = images p"
proof (induction xs arbitrary: p sess)
  case Nil
  then show ?case by simp
next
  case (Cons x xs)
  from Cons.prems obtain sp where sp: "products s x = Some sp"
    by (auto split: option.splits)
  with Cons.prems have rec: "linkSimilarProducts s pid xs
      (p\<lparr>similarProducts := similarProducts p @ [x]\<rparr>)
      (saveUnawaited x (sp\<lparr>similarProducts := similarProducts sp @ [pid]\<rparr>) sess)
      = Inr (p', sess')"
    by simp
  from Cons.IH [OF rec] show ?case by (simp add: commit_saveUnawaited_images)
qed

lemma createImages_persisted:
  "createImages newIds k pid fs p sess = (p', sess') \<Longrightarrow>
   \<forall>i\<in>set (images p). productImages (commitTransaction s sess) i \<noteq> None \<Longrightarrow>
   (\<forall>i\<in>set (images p'). productImages (commitTransaction s sess') i \<noteq> None) \<and>
   length (images p') = length (images p) + length fs"
proof (induction fs arbitrary: k p sess)
  case Nil
  then show ?case by simp
next
  case (Cons f fs)
  from Cons.prems(1) have rec: "createImages newIds (Suc k) pid fs
      (p\<lparr>images := images p @ [newIds k]\<rparr>)
      (sess @ [SaveImage (newIds k) \<lparr>url = f\<rparr>]) = (p', sess')"
    by (simp add: createProductImage_def)
  have "\<forall>i\<in>set (images (p\<lparr>images := images p @ [newIds k]\<rparr>)).
          productImages (commitTransaction s (sess @ [SaveImage (newIds k) \<lparr>url = f\<rparr>])) i \<noteq> None"
    using Cons.prems(2) by (simp add: commitTransaction_snoc)
  from Cons.IH [OF rec this] show ?case by simp
qed

lemmas create_defs = createProduct_def createProductCommit_def createProductImage_def
  newProduct_def sampleData_def newIdsSample_def fileStoreUp_def fileStoreDown_def addNewImageOfProduct_def addNewImageCommit_def
  catalog_def storeOf_def sampleProduct_def save_def saveUnawaited_def validateProduct_def
  MAX_IMAGES_PER_PRODUCT_def MIN_IMAGES_PER_PRODUCT_def MIN_QTY_IN_STOCK_def MIN_PRODUCT_PRICE_def


section \<open>The claims\<close>

subsection \<open>C1: the mutual edge after a relation edit\<close>




subsection \<open>C2: an upload that fails after the commit\<close>

text \<open>
  Claim C2, as amended. When the transactional part of \<open>createProduct\<close> (or of
  \<open>addNewImageOfProduct\<close>) has committed and a subsequent file upload fails, the
  committed product document and its image records are in the store afterwards, one
  image reference per file: nothing is rolled back. The operation is not reported to
  the caller as a success: the upload throws inside the same \<open>try\<close> block as the
  commit, and no handler has an answer for a success whose upload failed.
\<close>

theorem upload_failure_after_commit:
  "(createProductCommit newIds s productImgFiles productData = Inr (pid, product, s') \<and>
    uploadAll fileStore productImgFiles = Some e \<longrightarrow>
      snd (createProduct newIds fileStore s (Some productImgFiles) productData) = s' \<and>
      \<not> isSuccess (fst (createProduct newIds fileStore s (Some productImgFiles) productData)) \<and>
      products s' pid = Some product \<and>
      length (images product) = length productImgFiles \<and>
      (\<forall>i\<in>set (images product). productImages s' i \<noteq> None)) \<and>
   (addNewImageCommit newId s productId f = Inr (product1, s1) \<and> \<not> fileStore f \<longrightarrow>
      snd (addNewImageOfProduct newId fileStore s productId (Some f)) = s1 \<and>
      \<not> isSuccess (fst (addNewImageOfProduct newId fileStore s productId (Some f))) \<and>
      products s1 productId = Some product1 \<and>
      newId \<in> set (images product1) \<and>
      productImages s1 newId = Some \<lparr>url = f\<rparr>)"
proof (intro conjI impI)
  assume h: "createProductCommit newIds s productImgFiles productData = Inr (pid, product, s') \<and>
    uploadAll fileStore productImgFiles = Some e"
  then show "snd (createProduct newIds fileStore s (Some productImgFiles) productData) = s'"
    by (simp add: createProduct_def)
  from h show
    "\<not> isSuccess (fst (createProduct newIds fileStore s (Some productImgFiles) productData))"
    by (simp add: createProduct_def)
  obtain p1 sess1 where ci: "createImages newIds 1 (newIds 0) productImgFiles
       (newProduct productData) [] = (p1, sess1)"
    by (cases "createImages newIds 1 (newIds 0) productImgFiles (newProduct productData) []") auto
  from h ci obtain sess2 where
      l: "linkSimilarProducts s (newIds 0) (similarProducts productData) p1 sess1
            = Inr (product, sess2)"
    and v: "validateProduct product = []"
    and s': "s' = commitTransaction s (sess2 @ [SaveProduct pid product])"
    by (auto simp: createProductCommit_def Let_def save_def
             split: if_splits sum.splits prod.splits)
  show "products s' pid = Some product"
    by (simp add: s' commitTransaction_snoc)
  from createImages_persisted [OF ci, of s]
  have p1: "\<forall>i\<in>set (images p1). productImages (commitTransaction s sess1) i \<noteq> None"
    and len: "length (images p1) = length productImgFiles"
    by (simp_all add: newProduct_def)
  from linkSimilarProducts_images [OF l]
  have im: "productImages (commitTransaction s sess2) = productImages (commitTransaction s sess1)"
    and ip: "images product = images p1" by simp_all
  show "length (images product) = length productImgFiles" using len ip by simp
  show "\<forall>i\<in>set (images product). productImages s' i \<noteq> None"
    using p1 im ip by (simp add: s' commitTransaction_snoc)
next
  assume h: "addNewImageCommit newId s productId f = Inr (product1, s1) \<and> \<not> fileStore f"
  then show "snd (addNewImageOfProduct newId fileStore s productId (Some f)) = s1"
    by (simp add: addNewImageOfProduct_def)
  from h show "\<not> isSuccess (fst (addNewImageOfProduct newId fileStore s productId (Some f)))"
    by (simp add: addNewImageOfProduct_def)
  from h show "products s1 productId = Some product1"
    by (auto simp: addNewImageCommit_def createProductImage_def save_def Let_def
                   commitTransaction_def split: option.splits if_splits)
  from h show "newId \<in> set (images product1)"
    by (auto simp: addNewImageCommit_def createProductImage_def save_def Let_def
                   commitTransaction_def split: option.splits if_splits)
  from h show "productImages s1 newId = Some \<lparr>url = f\<rparr>"
    by (auto simp: addNewImageCommit_def createProductImage_def save_def Let_def
                   commitTransaction_def split: option.splits if_splits)
qed

text \<open>
  At this input the commit succeeds and the upload fails; the handler ends in its
  \<open>catch\<close> block without an answer, which is not the success the claim states.
\<close>

theorem upload_failure_after_commit_counterexample:
  "createProductCommit newIdsSample catalog [''f9''] (sampleData [''a'']) =
     Inr (''p'', sampleProduct [''j1''] [''a''],
          commitTransaction catalog
            [SaveImage ''j1'' \<lparr>url = ''f9''\<rparr>,
             SaveProduct ''a'' (sampleProduct [''i1''] [''p'']),
             SaveProduct ''p'' (sampleProduct [''j1''] [''a''])]) \<and>
   uploadAll fileStoreDown [''f9''] = Some (FileStoreFailed ''f9'') \<and>
   createProduct newIdsSample fileStoreDown catalog (Some [''f9'']) (sampleData [''a'']) =
     (NoResponse CannotAbortAfterCommit,
      commitTransaction catalog
        [SaveImage ''j1'' \<lparr>url = ''f9''\<rparr>,
         SaveProduct ''a'' (sampleProduct [''i1''] [''p'']),
         SaveProduct ''p'' (sampleProduct [''j1''] [''a''])]) \<and>
   \<not> isSuccess (fst (createProduct newIdsSample fileStoreDown catalog (Some [''f9''])
                       (sampleData [''a''])))"
  by (simp add: create_defs Let_def)

theorem upload_failure_after_commit_witness:
  "createProductCommit newIdsSample catalog [''f9''] (sampleData [''a'']) =
     Inr (''p'', sampleProduct [''j1''] [''a''],
          commitTransaction catalog
            [SaveImage ''j1'' \<lparr>url = ''f9''\<rparr>,
             SaveProduct ''a'' (sampleProduct [''i1''] [''p'']),
             SaveProduct ''p'' (sampleProduct [''j1''] [''a''])]) \<and>
   uploadAll fileStoreDown [''f9''] = Some (FileStoreFailed ''f9'') \<and>
   snd (createProduct newIdsSample fileStoreDown catalog (Some [''f9'']) (sampleData [''a''])) =
     commitTransaction catalog
       [SaveImage ''j1'' \<lparr>url = ''f9''\<rparr>,
        SaveProduct ''a'' (sampleProduct [''i1''] [''p'']),
        SaveProduct ''p'' (sampleProduct [''j1''] [''a''])] \<and>
   products (commitTransaction catalog
            [SaveImage ''j1'' \<lparr>url = ''f9''\<rparr>,
             SaveProduct ''a'' (sampleProduct [''i1''] [''p'']),
             SaveProduct ''p'' (sampleProduct [''j1''] [''a''])]) ''p''
     = Some (sampleProduct [''j1''] [''a'']) \<and>
   productImages (commitTransaction catalog
            [SaveImage ''j1'' \<lparr>url = ''f9''\<rparr>,
             SaveProduct ''a'' (sampleProduct [''i1''] [''p'']),
             SaveProduct ''p'' (sampleProduct [''j1''] [''a''])]) ''j1'' \<noteq> None \<and>
   addNewImageCommit ''j1'' catalog ''a'' ''f9'' =
     Inr (sampleProduct [''i1'', ''j1''] [],
          commitTransaction catalog
            [SaveImage ''j1'' \<lparr>url = ''f9''\<rparr>,
             SaveProduct ''a'' (sampleProduct [''i1'', ''j1''] [])]) \<and>
   \<not> fileStoreDown ''f9'' \<and>
   snd (addNewImageOfProduct ''j1'' fileStoreDown catalog ''a'' (Some ''f9'')) =
     commitTransaction catalog
       [SaveImage ''j1'' \<lparr>url = ''f9''\<rparr>,
        SaveProduct ''a'' (sampleProduct [''i1'', ''j1''] [])] \<and>
   \<not> isSuccess (fst (addNewImageOfProduct ''j1'' fileStoreDown catalog ''a'' (Some ''f9''))) \<and>
   productImages (commitTransaction catalog
        [SaveImage ''j1'' \<lparr>url = ''f9''\<rparr>,
         SaveProduct ''a'' (sampleProduct [''i1'', ''j1''] [])]) ''j1'' = Some \<lparr>url = ''f9''\<rparr>"
proof -
  have h1: "createProductCommit newIdsSample catalog [''f9''] (sampleData [''a'']) =
     Inr (''p'', sampleProduct [''j1''] [''a''],
          commitTransaction catalog
            [SaveImage ''j1'' \<lparr>url = ''f9''\<rparr>,
             SaveProduct ''a'' (sampleProduct [''i1''] [''p'']),
             SaveProduct ''p'' (sampleProduct [''j1''] [''a''])])"
    by (simp add: create_defs Let_def)
  have h2: "uploadAll fileStoreDown [''f9''] = Some (FileStoreFailed ''f9'')"
    by (simp add: fileStoreDown_def)
  have h3: "addNewImageCommit ''j1'' catalog ''a'' ''f9'' =
     Inr (sampleProduct [''i1'', ''j1''] [],
          commitTransaction catalog
            [SaveImage ''j1'' \<lparr>url = ''f9''\<rparr>,
             SaveProduct ''a'' (sampleProduct [''i1'', ''j1''] [])])"
    by (simp add: create_defs Let_def)
  have h4: "\<not> fileStoreDown ''f9''"
    by (simp add: fileStoreDown_def)
  have i: "images (sampleProduct [''j1''] [''a'']) = [''j1'']"
    by (simp add: sampleProduct_def)
  from upload_failure_after_commit [of newIdsSample catalog "[''f9'']" "sampleData [''a'']" "''p''"
            "sampleProduct [''j1''] [''a'']"
            "commitTransaction catalog
               [SaveImage ''j1'' \<lparr>url = ''f9''\<rparr>,
                SaveProduct ''a'' (sampleProduct [''i1''] [''p'']),
                SaveProduct ''p'' (sampleProduct [''j1''] [''a''])]"
            fileStoreDown "FileStoreFailed ''f9''" "''j1''" "''a''" "''f9''"
            "sampleProduct [''i1'', ''j1''] []"
            "commitTransaction catalog
               [SaveImage ''j1'' \<lparr>url = ''f9''\<rparr>,
                SaveProduct ''a'' (sampleProduct [''i1'', ''j1''] [])]"]
       h1 h2 h3 h4
  show ?thesis by (simp add: i)
qed

subsection \<open>C3: create-product with no image file or more than three\<close>

text \<open>
  Claim C3, as amended. A create-product request with 0 or more than 3 image files
  always fails with status 400 and leaves the store unchanged. With more than 3 files
  the error is the maximum-images error, thrown before anything is written. With 0
  files nothing is thrown by a count check: the similar-products loop runs first, so
  the error is the not-found error of the first listed similar product that is
  missing, and only when all of them exist is it the validation error of the schema,
  which names the images path.
\<close>

theorem createProduct_image_count:
  assumes "length productImgFiles = 0 \<or> MAX_IMAGES_PER_PRODUCT < length productImgFiles"
  shows "createProduct newIds fileStore s (Some productImgFiles) productData =
           (CustomError
              (if MAX_IMAGES_PER_PRODUCT < length productImgFiles then MaximumImagesPerProduct
               else case find (\<lambda>x. products s x = None) (similarProducts productData) of
                      Some x \<Rightarrow> SimilarProductNotFound x
                    | None \<Rightarrow>
                        ValidationFailed
                          (validateProduct
                             ((newProduct productData)\<lparr>similarProducts :=
                                similarProducts productData\<rparr>)))
              400, s) \<and>
         Images \<in> set (validateProduct
                         ((newProduct productData)\<lparr>similarProducts :=
                            similarProducts productData\<rparr>))"
proof -
  let ?p = "(newProduct productData)\<lparr>similarProducts := similarProducts productData\<rparr>"
  have img: "Images \<in> set (validateProduct ?p)"
    by (simp add: validateProduct_def newProduct_def MIN_IMAGES_PER_PRODUCT_def)
  show ?thesis
  proof (cases "MAX_IMAGES_PER_PRODUCT < length productImgFiles")
    case True
    then show ?thesis using img
      by (simp add: createProduct_def createProductCommit_def Let_def)
  next
    case False
    with assms have nil: "productImgFiles = []" by simp
    show ?thesis
    proof (cases "find (\<lambda>x. products s x = None) (similarProducts productData)")
      case (Some x)
      from linkSimilarProducts_missing [OF Some] show ?thesis
        using nil img Some
        by (simp add: createProduct_def createProductCommit_def Let_def
                      MAX_IMAGES_PER_PRODUCT_def)
    next
      case None
      from linkSimilarProducts_present [OF None, of "newIds 0" "newProduct productData" "[]"]
      obtain sess' where l: "linkSimilarProducts s (newIds 0) (similarProducts productData)
            (newProduct productData) [] =
          Inr ((newProduct productData)\<lparr>similarProducts :=
                 similarProducts (newProduct productData) @ similarProducts productData\<rparr>, sess')"
        by blast
      have e: "(newProduct productData)\<lparr>similarProducts :=
                 similarProducts (newProduct productData) @ similarProducts productData\<rparr> = ?p"
        by (simp add: newProduct_def)
      from img have "validateProduct ?p \<noteq> []" by auto
      then show ?thesis
        using nil img None l
        by (simp add: createProduct_def createProductCommit_def Let_def e save_def
                      MAX_IMAGES_PER_PRODUCT_def)
    qed
  qed
qed

theorem createProduct_image_count_counterexample:
  "length ([] :: imageFile list) = 0 \<and>
   createProduct newIdsSample fileStoreUp catalog (Some []) (sampleData [''x'']) =
     (CustomError (SimilarProductNotFound ''x'') 400, catalog)"
  by (simp add: create_defs Let_def)

theorem createProduct_image_count_witness:
  "createProduct newIdsSample fileStoreUp catalog (Some []) (sampleData [''a'']) =
     (CustomError (ValidationFailed [Images]) 400, catalog) \<and>
   createProduct newIdsSample fileStoreUp catalog (Some [''f1'', ''f2'', ''f3'', ''f4''])
       (sampleData [''a'']) =
     (CustomError MaximumImagesPerProduct 400, catalog)"
proof -
  have h0: "length ([] :: imageFile list) = 0 \<or>
            MAX_IMAGES_PER_PRODUCT < length ([] :: imageFile list)"
    by simp
  have h4: "length [''f1'', ''f2'', ''f3'', ''f4''] = 0 \<or>
            MAX_IMAGES_PER_PRODUCT < length [''f1'', ''f2'', ''f3'', ''f4'']"
    by (simp add: MAX_IMAGES_PER_PRODUCT_def)
  have f: "find (\<lambda>x. products catalog x = None) (similarProducts (sampleData [''a''])) = None"
    by (simp add: sampleData_def catalog_def storeOf_def)
  have v: "validateProduct ((newProduct (sampleData [''a'']))\<lparr>similarProducts :=
             similarProducts (sampleData [''a''])\<rparr>) = [Images]"
    by (simp add: create_defs)
  from createProduct_image_count [OF h0, of newIdsSample fileStoreUp catalog "sampleData [''a'']"]
       createProduct_image_count [OF h4, of newIdsSample fileStoreUp catalog "sampleData [''a'']"]
  show ?thesis by (simp add: f v MAX_IMAGES_PER_PRODUCT_def)
qed

subsection \<open>C4: a missing endpoint fails the whole edit\<close>

text \<open>
  Claim C4. When some id of the to-add list of an edit-similar-products request does
  not exist in the store, the operation answers with an error and the committed store
  is the one it started from: no edge of the edited product, and no other document,
  has changed, whatever the removal loop and the earlier additions had written under
  the session.
\<close>

theorem editSimilarProducts_missing_endpoint_atomic:
  assumes "products s productId = Some product"
    and "x \<in> set (addSimilarProductIds product newSimilarProductList)"
    and "products s x = None"
  shows "\<exists>e. editSimilarProductsOfProduct s productId (ArrayOfStrings newSimilarProductList)
              = (CustomError e 500, s)"
proof -
  from assms(2,3) obtain e where
    "addSimilarProducts s productId (addSimilarProductIds product newSimilarProductList)
       (fst (removeSimilarProducts s productId
               (removeSimilarProductIds product newSimilarProductList) product []))
       (snd (removeSimilarProducts s productId
               (removeSimilarProductIds product newSimilarProductList) product [])) = Inl e"
    using addSimilarProducts_Inl by blast
  with assms(1) show ?thesis by (blast intro: editSimilarProducts_add_error)
qed

theorem editSimilarProducts_missing_endpoint_atomic_witness:
  "products catalog ''a'' = Some (sampleProduct [''i1''] []) \<and>
   ''x'' \<in> set (addSimilarProductIds (sampleProduct [''i1''] []) [''b'', ''x'']) \<and>
   products catalog ''x'' = None \<and>
   (\<exists>e. editSimilarProductsOfProduct catalog ''a'' (ArrayOfStrings [''b'', ''x''])
          = (CustomError e 500, catalog))"
proof -
  have h1: "products catalog ''a'' = Some (sampleProduct [''i1''] [])"
    by (simp add: catalog_def storeOf_def)
  have h2: "''x'' \<in> set (addSimilarProductIds (sampleProduct [''i1''] []) [''b'', ''x''])"
    by (simp add: addSimilarProductIds_def sampleProduct_def)
  have h3: "products catalog ''x'' = None"
    by (simp add: catalog_def storeOf_def)
  from editSimilarProducts_missing_endpoint_atomic [OF h1 h2 h3] h1 h2 h3 show ?thesis by blast
qed

subsection \<open>C5: the product's own id in the to-add list\<close>

text \<open>
  Claim C5, as amended. When the to-add list of an edit-similar-products request
  contains the product's own id, the operation always fails (with status 500) and the
  committed store is unchanged. The loop checks the ids in order, so the error is the
  self-reference error exactly when every to-add id listed before the product's own id
  exists in the store; otherwise it is the not-found error of the first missing one.
\<close>

theorem editSimilarProducts_self_reference:
  assumes "products s productId = Some product"
    and "productId \<in> set (addSimilarProductIds product newSimilarProductList)"
  shows "editSimilarProductsOfProduct s productId (ArrayOfStrings newSimilarProductList) =
           (CustomError
              (case find (\<lambda>x. products s x = None)
                      (takeWhile (\<lambda>x. x \<noteq> productId)
                         (addSimilarProductIds product newSimilarProductList)) of
                 None \<Rightarrow> CannotAddItself
               | Some x \<Rightarrow> SimilarProductNotFound x) 500, s)"
  using assms(1) addSimilarProducts_self [OF assms(2)]
  by (intro editSimilarProducts_add_error) auto

theorem editSimilarProducts_self_reference_counterexample:
  "products catalog ''a'' = Some (sampleProduct [''i1''] []) \<and>
   ''a'' \<in> set (addSimilarProductIds (sampleProduct [''i1''] []) [''x'', ''a'']) \<and>
   editSimilarProductsOfProduct catalog ''a'' (ArrayOfStrings [''x'', ''a''])
     = (CustomError (SimilarProductNotFound ''x'') 500, catalog)"
  by (simp add: eval_defs)

theorem editSimilarProducts_self_reference_witness:
  "products catalog ''a'' = Some (sampleProduct [''i1''] []) \<and>
   ''a'' \<in> set (addSimilarProductIds (sampleProduct [''i1''] []) [''b'', ''a'']) \<and>
   editSimilarProductsOfProduct catalog ''a'' (ArrayOfStrings [''b'', ''a''])
     = (CustomError CannotAddItself 500, catalog)"
proof -
  have h1: "products catalog ''a'' = Some (sampleProduct [''i1''] [])"
    by (simp add: catalog_def storeOf_def)
  have h2: "''a'' \<in> set (addSimilarProductIds (sampleProduct [''i1''] []) [''b'', ''a''])"
    by (simp add: addSimilarProductIds_def sampleProduct_def)
  have "find (\<lambda>x. products catalog x = None)
          (takeWhile (\<lambda>x. x \<noteq> ''a'')
             (addSimilarProductIds (sampleProduct [''i1''] []) [''b'', ''a''])) = None"
    by (simp add: addSimilarProductIds_def sampleProduct_def catalog_def storeOf_def)
  with editSimilarProducts_self_reference [OF h1 h2] h1 h2 show ?thesis by simp
qed

subsection \<open>C6: rearranging the images of a product\<close>

text \<open>
  Claim C6 says that a permutation of the product's image ids is accepted and stored
  in the submitted order. Evaluated on the sample catalog: product \<open>b\<close> holds the
  images \<open>[i2, i3]\<close>, both with a stored record, and the submitted list \<open>[i3, i2]\<close> is a
  permutation of them; the handler compares the submitted strings with the renderings
  of the loaded image documents, answers with the images-are-different error, status
  400, and leaves the stored order as it was.
\<close>

theorem rearrangeImages_refuses_permutation:
  "products catalog ''b'' = Some (sampleProduct [''i2'', ''i3''] []) \<and>
   mset [''i3'', ''i2''] = mset (images (sampleProduct [''i2'', ''i3''] [])) \<and>
   populateImages catalog (images (sampleProduct [''i2'', ''i3''] [])) =
     [ImageDoc ''i2'' \<lparr>url = ''f2''\<rparr>, ImageDoc ''i3'' \<lparr>url = ''f3''\<rparr>] \<and>
   rearrangeImagesOfProduct catalog ''b'' (ArrayOfStrings [''i3'', ''i2'']) =
     (CustomError ImagesAreDifferent 400, catalog)"
  by (simp add: eval_defs rearrangeImagesOfProduct_def doesArraysHaveSimilarElements_def)

subsection \<open>C7: deleting an image of a product\<close>

text \<open>
  Claim C7 says that an image that belongs to the product is detached from it and
  deleted. For every existing product and every existing image the handler answers
  with the does-not-belong error, status 400, and leaves the store unchanged, also
  when the image id is in the product's image list: the id is searched among the
  loaded image documents, where it is never found.
\<close>

theorem deleteImage_refuses_every_image:
  assumes "products s productId = Some product"
    and "productImages s imageId = Some img"
  shows "deleteImageOfProduct fileStore s productId imageId =
           (CustomError (ImageDoesNotBelong imageId productId) 400, s)"
  using assms by (simp add: deleteImageOfProduct_def Let_def indexOf_populateImages)

theorem deleteImage_refuses_every_image_witness:
  "products catalog ''b'' = Some (sampleProduct [''i2'', ''i3''] []) \<and>
   productImages catalog ''i2'' = Some \<lparr>url = ''f2''\<rparr> \<and>
   ''i2'' \<in> set (images (sampleProduct [''i2'', ''i3''] [])) \<and>
   deleteImageOfProduct fileStoreUp catalog ''b'' ''i2'' =
     (CustomError (ImageDoesNotBelong ''i2'' ''b'') 400, catalog) \<and>
   products catalog ''a'' = Some (sampleProduct [''i1''] []) \<and>
   productImages catalog ''i1'' = Some \<lparr>url = ''f1''\<rparr> \<and>
   ''i1'' \<in> set (images (sampleProduct [''i1''] [])) \<and>
   deleteImageOfProduct fileStoreUp catalog ''a'' ''i1'' =
     (CustomError (ImageDoesNotBelong ''i1'' ''a'') 400, catalog)"
proof -
  have h1: "products catalog ''b'' = Some (sampleProduct [''i2'', ''i3''] [])"
    and h1a: "products catalog ''a'' = Some (sampleProduct [''i1''] [])"
    and h2: "productImages catalog ''i2'' = Some \<lparr>url = ''f2''\<rparr>"
    and h2a: "productImages catalog ''i1'' = Some \<lparr>url = ''f1''\<rparr>"
    by (simp_all add: catalog_def storeOf_def)
  have h3: "''i2'' \<in> set (images (sampleProduct [''i2'', ''i3''] []))"
    and h3a: "''i1'' \<in> set (images (sampleProduct [''i1''] []))"
    by (simp_all add: sampleProduct_def)
  from deleteImage_refuses_every_image [OF h1 h2, of fileStoreUp]
       deleteImage_refuses_every_image [OF h1a h2a, of fileStoreUp]
       h1 h1a h2 h2a h3 h3a
  show ?thesis by simp
qed

subsection \<open>C8: the status of a failure before the commit\<close>

text \<open>
  Claim C8 says that every failure before the commit is reported with a 400-class
  status. Evaluated on the sample catalog: looking up a product that does not exist,
  editing the similar products of a product that does not exist, and adding a product
  to its own similar products are each reported with status 500, while the same
  not-found failure is reported with status 400 by \<open>deleteImageOfProduct\<close>.
\<close>

theorem not_found_status_500:
  "getProduct catalog ''x'' = (CustomError (ProductNotFound ''x'') 500, catalog) \<and>
   editSimilarProductsOfProduct catalog ''x'' (ArrayOfStrings [])
     = (CustomError (ProductNotFound ''x'') 500, catalog) \<and>
   editSimilarProductsOfProduct catalog ''a'' (ArrayOfStrings [''a''])
     = (CustomError CannotAddItself 500, catalog) \<and>
   deleteImageOfProduct fileStoreUp catalog ''x'' ''i1''
     = (CustomError (ProductNotFound ''x'') 400, catalog)"
  by (simp add: eval_defs getProduct_def deleteImageOfProduct_def Let_def)

subsection \<open>C9: a dangling id survives its removal\<close>

text \<open>
  Claim C9. In a successful \<open>editSimilarProductsOfProduct\<close>, an id of the to-remove list
  whose product does not exist in the store is skipped by the removal loop: it is
  still in the similar products of the stored document afterwards, although it is not
  in the requested list, so the stored list differs from the requested one.
\<close>

theorem editSimilarProducts_dangling_id_kept:
  assumes "products s productId = Some product"
    and "editSimilarProductsOfProduct s productId (ArrayOfStrings newSimilarProductList)
           = (CustomSuccess productId' product' st, s')"
    and "r \<in> set (removeSimilarProductIds product newSimilarProductList)"
    and "products s r = None"
  shows "products s' productId = Some product' \<and> r \<in> set (similarProducts product') \<and>
         r \<notin> set newSimilarProductList"
proof -
  note su = editSimilarProducts_success [OF assms(1,2) refl refl]
  from assms(3) have r: "r \<in> set (similarProducts product)" "r \<notin> set newSimilarProductList"
    by (auto simp: removeSimilarProductIds_def list_ex_iff)
  from su(3) r(1) assms(4) have "r \<in> set (similarProducts product')" by simp
  with su(7) r(2) show ?thesis by simp
qed

theorem editSimilarProducts_dangling_id_kept_witness:
  "products catalogDangling ''a'' = Some (sampleProduct [''i1''] [''x'']) \<and>
   editSimilarProductsOfProduct catalogDangling ''a'' (ArrayOfStrings [])
     = (CustomSuccess ''a'' (sampleProduct [''i1''] [''x'']) 200,
        snd (editSimilarProductsOfProduct catalogDangling ''a'' (ArrayOfStrings []))) \<and>
   ''x'' \<in> set (removeSimilarProductIds (sampleProduct [''i1''] [''x'']) []) \<and>
   products catalogDangling ''x'' = None \<and>
   products (snd (editSimilarProductsOfProduct catalogDangling ''a'' (ArrayOfStrings []))) ''a''
     = Some (sampleProduct [''i1''] [''x'']) \<and>
   similarProducts (sampleProduct [''i1''] [''x'']) \<noteq> []"
proof -
  have h1: "products catalogDangling ''a'' = Some (sampleProduct [''i1''] [''x''])"
    by (simp add: catalogDangling_def storeOf_def)
  have h2: "editSimilarProductsOfProduct catalogDangling ''a'' (ArrayOfStrings [])
     = (CustomSuccess ''a'' (sampleProduct [''i1''] [''x'']) 200,
        snd (editSimilarProductsOfProduct catalogDangling ''a'' (ArrayOfStrings [])))"
    by (simp add: eval_defs)
  have h3: "''x'' \<in> set (removeSimilarProductIds (sampleProduct [''i1''] [''x'']) [])"
    by (simp add: removeSimilarProductIds_def sampleProduct_def)
  have h4: "products catalogDangling ''x'' = None"
    by (simp add: catalogDangling_def storeOf_def)
  from editSimilarProducts_dangling_id_kept [OF h1 h2 h3 h4] h1 h2 h3 h4 show ?thesis
    by (simp add: sampleProduct_def)
qed

subsection \<open>C10: a new quantity of zero\<close>

text \<open>
  Claim C10. \<open>editQuantityOfProduct\<close> rejects a requested quantity of 0 with the
  not-present error, for every product and store, although the minimum quantity in
  stock of the data model is 0. Whatever the requested quantity, the operation either
  leaves the store as it was or stores the requested quantity, which is then not 0:
  the stock is never set to zero by this operation.
\<close>

theorem editQuantity_rejects_zero:
  "editQuantityOfProduct s productId (Some 0) = (CustomError NewQuantityNotPresent 500, s) \<and>
   MIN_QTY_IN_STOCK = 0 \<and>
   (editQuantityOfProduct s productId newProductQuantity = (r, s') \<longrightarrow>
      s' = s \<or> (\<exists>product'. products s' productId = Some product' \<and>
                   newProductQuantity = Some (quantityInStock product') \<and>
                   quantityInStock product' \<noteq> 0))"
  by (auto simp: editQuantityOfProduct_def saveDirect_def MIN_QTY_IN_STOCK_def Let_def
           split: option.splits if_splits)

theorem editQuantity_rejects_zero_witness:
  "editQuantityOfProduct catalog ''a'' (Some 0) = (CustomError NewQuantityNotPresent 500, catalog) \<and>
   editQuantityOfProduct catalog ''a'' (Some 7) =
     (CustomSuccess ''a'' ((sampleProduct [''i1''] [])\<lparr>quantityInStock := 7\<rparr>) 200,
      catalog\<lparr>products := (products catalog)(''a'' \<mapsto>
                 (sampleProduct [''i1''] [])\<lparr>quantityInStock := 7\<rparr>)\<rparr>) \<and>
   (catalog\<lparr>products := (products catalog)(''a'' \<mapsto>
                 (sampleProduct [''i1''] [])\<lparr>quantityInStock := 7\<rparr>)\<rparr> = catalog \<or>
    (\<exists>product'. products (catalog\<lparr>products := (products catalog)(''a'' \<mapsto>
                 (sampleProduct [''i1''] [])\<lparr>quantityInStock := 7\<rparr>)\<rparr>) ''a'' = Some product' \<and>
       Some 7 = Some (quantityInStock product') \<and> quantityInStock product' \<noteq> 0))"
proof -
  have h: "editQuantityOfProduct catalog ''a'' (Some 7) =
     (CustomSuccess ''a'' ((sampleProduct [''i1''] [])\<lparr>quantityInStock := 7\<rparr>) 200,
      catalog\<lparr>products := (products catalog)(''a'' \<mapsto>
                 (sampleProduct [''i1''] [])\<lparr>quantityInStock := 7\<rparr>)\<rparr>)"
    by (simp add: eval_defs editQuantityOfProduct_def saveDirect_def Let_def)
  from editQuantity_rejects_zero [of catalog "''a''" "Some 7"
         "CustomSuccess ''a'' ((sampleProduct [''i1''] [])\<lparr>quantityInStock := 7\<rparr>) 200"
         "catalog\<lparr>products := (products catalog)(''a'' \<mapsto>
                 (sampleProduct [''i1''] [])\<lparr>quantityInStock := 7\<rparr>)\<rparr>"] h
  show ?thesis by blast
qed

end
